theory Spec2Isabelle
  imports Main "HOL-Library.Word"
begin

section \<open>Values of the canister\<close>

text \<open>
  The canister of \<^verbatim>\<open>src/index.ts\<close> is a set of handlers over five stable maps. The
  handlers are embedded as functions that take the ambient values they read
  (\<^verbatim>\<open>ic.caller()\<close>, \<^verbatim>\<open>ic.time()\<close>, the results of \<^verbatim>\<open>uuidv4()\<close>) and the stores, and
  return the reply together with the stores as they leave them.

  A stable map is modelled as the list of its entries. The records below are the objects
  the handlers build and read, with the fields the handlers write and read; a stable map
  serialises what it is given with the \<^verbatim>\<open>Record\<close> declared for it, which the
  encoders of each store model.

  An identifier that the source declares nowhere (\<^verbatim>\<open>current\<close>, \<^verbatim>\<open>pendingOrders\<close>,
  \<^verbatim>\<open>icpCanister\<close>, \<^verbatim>\<open>binaryAddressFromPrincipal\<close>) throws a \<^verbatim>\<open>ReferenceError\<close> where
  it is evaluated; the code after it is kept as written, for the value it would have.
\<close>

type_synonym nat64 = "64 word"
type_synonym bytes = "8 word list"

text \<open>A principal is identified by its textual form, which \<^verbatim>\<open>toText()\<close> returns.\<close>

datatype principal = Principal (toText: string)

text \<open>
  The JavaScript values that the handlers compare with \<^verbatim>\<open>===\<close> and \<^verbatim>\<open>!==\<close>. Strict
  equality never converts: two values of different types are different.
\<close>

datatype jsval = JUndefined | JBool bool | JText string | JBigInt nat64

definition strict_eq :: "jsval \<Rightarrow> jsval \<Rightarrow> bool" where
  "strict_eq a b = (a = b)"

text \<open>Exceptions thrown while a handler runs, and the text \<^verbatim>\<open>`${error}`\<close> gives them.\<close>

datatype js_error = TypeError string | ReferenceError string | JsError string

fun error_text :: "js_error \<Rightarrow> string" where
  "error_text (TypeError m) = ''TypeError: '' @ m"
| "error_text (ReferenceError m) = ''ReferenceError: '' @ m"
| "error_text (JsError m) = ''Error: '' @ m"

text \<open>The \<^verbatim>\<open>Error\<close> variant and the \<^verbatim>\<open>Result\<close> the handlers return.\<close>

datatype error =
    NotFound string
  | Unauthorized string
  | Forbidden string
  | BadRequest string
  | InternalError string
  | UserAlreadyExists string
  | InvalidUserRole string
  | UserDoesNotExist string
  | WasteDoesNotExist string
  | InactiveUser string
  | UnauthorizedWasteEdit string
  | InvalidWasteStatusUpdate string

datatype 'a result = Ok 'a | Err error

text \<open>
  What a call of a handler comes to: a reply with the value the handler returns, or a
  trap when an exception leaves the handler uncaught.
\<close>

datatype 'a outcome = Reply "'a result" | Trap js_error

subsection \<open>Records\<close>

record owner =
  owner_id :: principal
  owner_createdAt :: nat64
  owner_updatedAt :: nat64

text \<open>
  The object \<^verbatim>\<open>createUser\<close> builds carries a \<^verbatim>\<open>status\<close> that the \<^verbatim>\<open>User\<close> declaration
  does not list; \<open>None\<close> stands for a user without it (\<^verbatim>\<open>undefined\<close>), as every
  stored user is.
\<close>

record user =
  user_id :: principal
  user_name :: string
  user_role :: string
  user_status :: "bool option"
  user_createdAt :: nat64
  user_updatedAt :: nat64

text \<open>
  \<^verbatim>\<open>WastePayload\<close> declares \<^verbatim>\<open>description\<close>, \<^verbatim>\<open>weight\<close> and \<^verbatim>\<open>status\<close>; the handlers
  also read \<^verbatim>\<open>wastepayload.id\<close> and \<^verbatim>\<open>wastepayload.categoryId\<close>, which are \<open>None\<close>
  (\<^verbatim>\<open>undefined\<close>) for a payload that does not carry them.
\<close>

record wastePayload =
  payload_id :: "string option"
  payload_categoryId :: "string option"
  payload_description :: string
  payload_weight :: nat64
  payload_status :: bool

text \<open>
  A listing as \<^verbatim>\<open>createWaste\<close> builds it and as the handlers read it. \<^verbatim>\<open>senderId\<close> is
  written by \<^verbatim>\<open>updateWaste\<close> only, and is \<open>None\<close> before. The \<^verbatim>\<open>Waste\<close> declaration
  lists \<^verbatim>\<open>category_id\<close> and \<^verbatim>\<open>authoId\<close> where these objects carry \<^verbatim>\<open>categoryId\<close> and
  \<^verbatim>\<open>authorId\<close>.
\<close>

record waste =
  waste_id :: "string option"
  waste_categoryId :: "string option"
  waste_description :: string
  waste_weight :: nat64
  waste_status :: bool
  waste_authorId :: string
  waste_senderId :: "string option"
  waste_createdAt :: nat64
  waste_updatedAt :: nat64

record categoryPayload =
  cpayload_name :: string
  cpayload_price :: nat64
  cpayload_location :: string

text \<open>
  The object \<^verbatim>\<open>createCategory\<close> builds: an id and the payload under \<^verbatim>\<open>name\<close>. The
  \<^verbatim>\<open>Category\<close> declaration lists a text \<^verbatim>\<open>name\<close>, \<^verbatim>\<open>price\<close>, \<^verbatim>\<open>location\<close>,
  \<^verbatim>\<open>created_at\<close> and \<^verbatim>\<open>updated_at\<close>.
\<close>

record category =
  category_id :: string
  category_name :: categoryPayload

text \<open>
  The object \<^verbatim>\<open>processPayment\<close> builds. The \<^verbatim>\<open>Payment\<close> declaration lists \<^verbatim>\<open>wasteId\<close>
  where this object carries \<^verbatim>\<open>waste_id\<close>.
\<close>

record payment =
  payment_id :: string
  payment_waste_id :: string
  payment_weight :: nat64
  payment_amount :: nat64
  payment_method :: string
  payment_transaction_id :: string
  payment_paid_at :: nat64
  payment_fees :: nat64

subsection \<open>Stable maps\<close>

type_synonym ('k, 'v) stableBTreeMap = "('k \<times> 'v) list"

definition containsKey :: "('k, 'v) stableBTreeMap \<Rightarrow> 'k \<Rightarrow> bool" where
  "containsKey m k = (map_of m k \<noteq> None)"

definition get :: "('k, 'v) stableBTreeMap \<Rightarrow> 'k \<Rightarrow> 'v option" where
  "get m k = map_of m k"

text \<open>The entries with \<open>k\<close> bound to \<open>v\<close>.\<close>

fun put_entry :: "('k, 'v) stableBTreeMap \<Rightarrow> 'k \<Rightarrow> 'v \<Rightarrow> ('k, 'v) stableBTreeMap" where
  "put_entry [] k v = [(k, v)]"
| "put_entry ((k', v') # m) k v =
     (if k' = k then (k, v) # m else (k', v') # put_entry m k v)"

text \<open>
  \<^verbatim>\<open>StableBTreeMap(n, key, R).insert(k, v)\<close> serialises \<open>v\<close> with the \<^verbatim>\<open>Record\<close> \<open>R\<close>: a
  field that \<open>R\<close> does not declare is dropped, and a value without a field that \<open>R\<close>
  declares is refused with an exception. \<open>encode\<close> is that serialisation, for the objects
  the handlers give the store.
\<close>

definition insert_record ::
  "('v \<Rightarrow> js_error + 'v) \<Rightarrow> ('k, 'v) stableBTreeMap \<Rightarrow> 'k \<Rightarrow> 'v
     \<Rightarrow> js_error + ('k, 'v) stableBTreeMap" where
  "insert_record encode m k v =
     (case encode v of
        Inl e \<Rightarrow> Inl e
      | Inr stored \<Rightarrow> Inr (put_entry m k stored))"

definition remove_key :: "('k, 'v) stableBTreeMap \<Rightarrow> 'k \<Rightarrow> ('k, 'v) stableBTreeMap" where
  "remove_key m k = filter (\<lambda>e. fst e \<noteq> k) m"

definition values_of :: "('k, 'v) stableBTreeMap \<Rightarrow> 'v list" where
  "values_of m = map snd m"

definition isEmpty :: "('k, 'v) stableBTreeMap \<Rightarrow> bool" where
  "isEmpty m = (m = [])"

text \<open>
  \<^verbatim>\<open>Owner\<close> declares the fields of the object \<^verbatim>\<open>initOwner\<close> builds. \<^verbatim>\<open>User\<close> declares
  those of the object \<^verbatim>\<open>createUser\<close> builds but \<^verbatim>\<open>status\<close>, which is dropped. The
  objects built for the three other stores lack fields that \<^verbatim>\<open>Waste\<close>, \<^verbatim>\<open>Category\<close>
  and \<^verbatim>\<open>Payment\<close> declare, and are refused.
\<close>

definition missing_field :: "string \<Rightarrow> js_error" where
  "missing_field field = JsError (''Record is missing key '' @ field)"

definition encode_Owner :: "owner \<Rightarrow> js_error + owner" where
  "encode_Owner v = Inr v"

definition encode_User :: "user \<Rightarrow> js_error + user" where
  "encode_User v = Inr (v\<lparr>user_status := None\<rparr>)"

definition encode_Category :: "category \<Rightarrow> js_error + category" where
  "encode_Category v = Inl (missing_field ''price'')"

definition encode_Waste :: "waste \<Rightarrow> js_error + waste" where
  "encode_Waste v = Inl (missing_field ''category_id'')"

definition encode_Payment :: "payment \<Rightarrow> js_error + payment" where
  "encode_Payment v = Inl (missing_field ''wasteId'')"

record state =
  ownerStorage :: "(principal, owner) stableBTreeMap"
  userStorage :: "(principal, user) stableBTreeMap"
  categoryStorage :: "(string, category) stableBTreeMap"
  wasteStorage :: "(string option, waste) stableBTreeMap"
  paymentStorage :: "(string, payment) stableBTreeMap"

definition init_state :: state where
  "init_state =
     \<lparr>ownerStorage = [], userStorage = [], categoryStorage = [], wasteStorage = [],
      paymentStorage = []\<rparr>"

text \<open>The ambient values of one call: \<^verbatim>\<open>ic.caller()\<close> and \<^verbatim>\<open>ic.time()\<close>.\<close>

record ic =
  ic_caller :: principal
  ic_time :: nat64

text \<open>
  The ambient values with the bytes that \<^verbatim>\<open>crypto.getRandomValues\<close> draws from
  \<^verbatim>\<open>Math.random\<close>, which \<^verbatim>\<open>uuidv4()\<close> uses.
\<close>

record ambient = ic +
  random_values :: bytes

text \<open>
  \<^verbatim>\<open>try { ... } catch (error) { return Err({ InternalError: `${error}` }) }\<close>: an
  exception thrown in the block becomes an \<^verbatim>\<open>InternalError\<close> reply; the stores keep
  what the block wrote before it threw.
\<close>

definition catch_result :: "js_error + 'a result \<Rightarrow> 'a outcome" where
  "catch_result r =
     (case r of
        Inl e \<Rightarrow> Reply (Err (InternalError (error_text e)))
      | Inr v \<Rightarrow> Reply v)"

definition try_catch :: "(js_error + 'a result) \<times> state \<Rightarrow> 'a outcome \<times> state" where
  "try_catch r = (catch_result (fst r), snd r)"

text \<open>
  Reading a property of \<^verbatim>\<open>undefined\<close> throws a \<^verbatim>\<open>TypeError\<close>. \<^verbatim>\<open>opt.Some\<close> is
  \<^verbatim>\<open>undefined\<close> when \<^verbatim>\<open>opt\<close> is \<^verbatim>\<open>None\<close>.
\<close>

definition undefined_property :: "string \<Rightarrow> js_error" where
  "undefined_property field = TypeError (''cannot read property '' @ field @ '' of undefined'')"

text \<open>\<^verbatim>\<open>!x\<close> for a field that holds a boolean or is \<^verbatim>\<open>undefined\<close>.\<close>

definition truthy :: "bool option \<Rightarrow> bool" where
  "truthy x = (x = Some True)"

section \<open>Users\<close>

definition USER_ROLES :: "string list" where
  "USER_ROLES = [''sender'', ''receiver'']"

fun join :: "string \<Rightarrow> string list \<Rightarrow> string" where
  "join sep [] = []"
| "join sep [x] = x"
| "join sep (x # y # ys) = x @ sep @ join sep (y # ys)"

definition createUser :: "ic \<Rightarrow> state \<Rightarrow> string \<Rightarrow> user outcome \<times> state" where
  "createUser ic st name =
     (let currentPrincipal = ic_caller ic in
      try_catch
       (if containsKey (userStorage st) currentPrincipal
        then (Inr (Err (UserAlreadyExists ''You already have an account'')), st)
        else if name \<notin> set USER_ROLES
        then (Inr (Err (InvalidUserRole
                (''Invalid role '' @ [CHR 0x27] @ name @ [CHR 0x27] @ ''. Valid roles are: ''
                  @ join '', '' USER_ROLES))), st)
        else
          (let newUser =
                 \<lparr>user_id = currentPrincipal, user_name = name, user_role = name,
                  user_status = Some True, user_createdAt = ic_time ic,
                  user_updatedAt = ic_time ic\<rparr>
           in case insert_record encode_User (userStorage st) (user_id newUser) newUser of
                Inl e \<Rightarrow> (Inl e, st)
              | Inr users \<Rightarrow> (Inr (Ok newUser), st\<lparr>userStorage := users\<rparr>))))"

fun isOwner :: "state \<Rightarrow> principal \<Rightarrow> bool" where
  "isOwner st caller = containsKey (ownerStorage st) caller"

definition initOwner :: "ic \<Rightarrow> state \<Rightarrow> principal outcome \<times> state" where
  "initOwner ic st =
     (if \<not> isEmpty (ownerStorage st)
      then (Reply (Err (BadRequest ''Owner has already been initialized'')), st)
      else
        try_catch
         (let newOwner =
                \<lparr>owner_id = ic_caller ic, owner_createdAt = ic_time ic,
                 owner_updatedAt = ic_time ic\<rparr>
          in case insert_record encode_Owner (ownerStorage st) (ic_caller ic) newOwner of
               Inl e \<Rightarrow> (Inl e, st)
             | Inr owners \<Rightarrow> (Inr (Ok (ic_caller ic)), st\<lparr>ownerStorage := owners\<rparr>)))"

section \<open>Listings\<close>

definition getActiveWasteById :: "state \<Rightarrow> string \<Rightarrow> waste outcome" where
  "getActiveWasteById st ident =
     catch_result
      (case get (wasteStorage st) (Some ident) of
         None \<Rightarrow> Inr (Err (WasteDoesNotExist ''Waste item does not exist''))
       | Some waste \<Rightarrow> Inr (Ok waste))"

definition createWaste :: "ic \<Rightarrow> state \<Rightarrow> wastePayload \<Rightarrow> waste outcome \<times> state" where
  "createWaste ic st wastepayload =
     (let currentPrincipal = ic_caller ic in
      try_catch
       (if \<not> containsKey (userStorage st) currentPrincipal
        then (Inr (Err (Unauthorized ''Create an account first'')), st)
        else
          (case get (userStorage st) currentPrincipal of
             None \<Rightarrow> (Inl (undefined_property ''status''), st)
           | Some user \<Rightarrow>
               if \<not> truthy (user_status user)
               then (Inr (Err (Forbidden ''Account is currently deactived'')), st)
               else
                 (let newWaste =
                        \<lparr>waste_id = payload_id wastepayload,
                         waste_categoryId = payload_categoryId wastepayload,
                         waste_description = payload_description wastepayload,
                         waste_weight = payload_weight wastepayload,
                         waste_status = payload_status wastepayload,
                         waste_authorId = toText currentPrincipal,
                         waste_senderId = None,
                         waste_createdAt = ic_time ic,
                         waste_updatedAt = ic_time ic\<rparr>
                  in case insert_record encode_Waste (wasteStorage st) (waste_id newWaste)
                            newWaste of
                       Inl e \<Rightarrow> (Inl e, st)
                     | Inr wastes \<Rightarrow> (Inr (Ok newWaste), st\<lparr>wasteStorage := wastes\<rparr>)))))"

text \<open>
  \<^verbatim>\<open>updateWaste\<close> reads the identifier \<^verbatim>\<open>current\<close>, which is declared nowhere: evaluating
  it throws a \<^verbatim>\<open>ReferenceError\<close>.
\<close>

definition current_ref :: "js_error + jsval" where
  "current_ref = Inl (ReferenceError ''current is not defined'')"

text \<open>
  \<^verbatim>\<open>currentPrincipal != waste.Some.authorId\<close> compares a principal with a text: the loose
  comparison converts the principal to its text.
\<close>

definition updateWaste :: "ic \<Rightarrow> state \<Rightarrow> wastePayload \<Rightarrow> waste outcome \<times> state" where
  "updateWaste ic st wastepayload =
     try_catch
      (if \<not> containsKey (wasteStorage st) (payload_id wastepayload)
       then (Inr (Err (NotFound ''Waste not found'')), st)
       else
         (case get (wasteStorage st) (payload_id wastepayload) of
            None \<Rightarrow> (Inl (undefined_property ''senderId''), st)
          | Some waste \<Rightarrow>
              (let currentStatus = payload_status wastepayload;
                   currentSender = waste_senderId waste;
                   currentPrincipal = ic_caller ic
               in case get (userStorage st) (ic_caller ic) of
                    None \<Rightarrow> (Inl (undefined_property ''role''), st)
                  | Some userInfo \<Rightarrow>
                      if user_role userInfo = ''sender''
                         \<and> toText currentPrincipal \<noteq> waste_authorId waste
                      then (Inr (Err (Forbidden ''You can only edit your own selling item.'')), st)
                      else
                        (case current_ref of
                           Inl e \<Rightarrow> (Inl e, st)
                         | Inr current \<Rightarrow>
                             if \<not> strict_eq current (JText (waste_authorId waste))
                                \<and> \<not> strict_eq (JText (user_role userInfo)) (JText ''receiver'')
                             then (Inr (Err (Forbidden
                                     ''Only receiver can verify and edit the waste item'')), st)
                             else
                               (let currentStatus =
                                      (if user_role userInfo = ''sender''
                                       then payload_status wastepayload else currentStatus);
                                    currentSender =
                                      (if user_role userInfo = ''sender''
                                       then Some (toText currentPrincipal) else currentSender)
                                in case insert_record encode_Waste (wasteStorage st)
                                          (waste_id waste)
                                          (waste\<lparr>waste_categoryId := payload_categoryId wastepayload,
                                                 waste_description := payload_description wastepayload,
                                                 waste_weight := payload_weight wastepayload,
                                                 waste_status := currentStatus,
                                                 waste_senderId := currentSender,
                                                 waste_updatedAt := ic_time ic\<rparr>) of
                                     Inl e \<Rightarrow> (Inl e, st)
                                   | Inr wastes \<Rightarrow>
                                       (Inr (Ok waste), st\<lparr>wasteStorage := wastes\<rparr>))))))"

definition getActiveWastes :: "state \<Rightarrow> waste list outcome" where
  "getActiveWastes st =
     catch_result
      (Inr (Ok (filter (\<lambda>waste. strict_eq (JBool (waste_status waste)) (JText ''active''))
                  (values_of (wasteStorage st)))))"

text \<open>
  \<^verbatim>\<open>getInactiveWastes\<close> reads \<^verbatim>\<open>userStorage.get(ic.caller()).Some.role\<close> before its
  \<^verbatim>\<open>try\<close> block.
\<close>

definition getInactiveWastes :: "ic \<Rightarrow> state \<Rightarrow> waste list outcome" where
  "getInactiveWastes ic st =
     (case get (userStorage st) (ic_caller ic) of
        None \<Rightarrow> Trap (undefined_property ''role'')
      | Some user \<Rightarrow>
          if \<not> strict_eq (JText (user_role user)) (JText ''buyer'')
          then Reply (Err (Forbidden ''Only buyer can verify and edit your waste items''))
          else
            catch_result
             (Inr (Ok (filter
                        (\<lambda>waste. strict_eq (JBool (waste_status waste)) (JText ''inactive''))
                        (values_of (wasteStorage st))))))"

definition createCategory ::
  "string \<Rightarrow> ic \<Rightarrow> state \<Rightarrow> categoryPayload \<Rightarrow> category outcome \<times> state" where
  "createCategory uuid ic st name =
     (if \<not> isOwner st (ic_caller ic)
      then (Reply (Err (Forbidden ''Action reserved for new waste category'')), st)
      else
        try_catch
         (let newCategory = \<lparr>category_id = uuid, category_name = name\<rparr>
          in case insert_record encode_Category (categoryStorage st) (category_id newCategory)
                    newCategory of
               Inl e \<Rightarrow> (Inl e, st)
             | Inr categories \<Rightarrow> (Inr (Ok newCategory), st\<lparr>categoryStorage := categories\<rparr>)))"

definition getActiveWasteByCategory :: "state \<Rightarrow> string \<Rightarrow> waste list outcome" where
  "getActiveWasteByCategory st categoryId =
     catch_result
      (Inr (Ok (filter
                 (\<lambda>waste. waste_categoryId waste = Some categoryId \<and> waste_status waste)
                 (values_of (wasteStorage st)))))"

section \<open>Payments\<close>

text \<open>
  \<^verbatim>\<open>processPayment\<close>. The fee is computed in floating point
  (\<^verbatim>\<open>Number(amount) * 0.05\<close>) and converted by \<^verbatim>\<open>nat64.fromNumber\<close>, which the source
  does not define: that computation is the parameter \<open>fees_of\<close>, which returns the fee
  or throws. \<open>uuid1\<close> and \<open>uuid2\<close> are the results of the two calls of \<^verbatim>\<open>uuidv4()\<close>.
\<close>

definition processPayment ::
  "(nat64 \<Rightarrow> js_error + nat64) \<Rightarrow> string \<Rightarrow> string \<Rightarrow> ic \<Rightarrow> state \<Rightarrow> string \<Rightarrow> nat64 \<Rightarrow> string
     \<Rightarrow> payment outcome \<times> state" where
  "processPayment fees_of uuid1 uuid2 ic st wasteId amount paymentMethod =
     (let currentPrincipal = ic_caller ic in
      try_catch
       (case get (wasteStorage st) (Some wasteId) of
          None \<Rightarrow> (Inr (Err (BadRequest ''Invalid waste item'')), st)
        | Some waste \<Rightarrow>
            if \<not> strict_eq (JBool (waste_status waste)) (JText ''active'')
            then (Inr (Err (BadRequest ''Invalid waste item'')), st)
            else
              (case get (userStorage st) currentPrincipal of
                 None \<Rightarrow> (Inr (Err (Unauthorized ''Only buyers can process payments'')), st)
               | Some user \<Rightarrow>
                   if \<not> strict_eq (JText (user_role user)) (JText ''buyer'')
                   then (Inr (Err (Unauthorized ''Only buyers can process payments'')), st)
                   else
                     (case fees_of amount of
                        Inl e \<Rightarrow> (Inl e, st)
                      | Inr fees \<Rightarrow>
                          (let newPayment =
                                 \<lparr>payment_id = uuid1, payment_waste_id = wasteId,
                                  payment_weight = waste_weight waste,
                                  payment_amount = amount,
                                  payment_method = paymentMethod,
                                  payment_transaction_id = ''TX_'' @ uuid2,
                                  payment_paid_at = ic_time ic, payment_fees = fees\<rparr>
                           in case insert_record encode_Payment (paymentStorage st)
                                     (payment_id newPayment) newPayment of
                                Inl e \<Rightarrow> (Inl e, st)
                              | Inr payments \<Rightarrow>
                                  (Inr (Ok newPayment), st\<lparr>paymentStorage := payments\<rparr>))))))"

section \<open>Correlation ids, timers and the ledger\<close>

text \<open>
  \<^verbatim>\<open>hash(input) = BigInt(Math.abs(hashCode().value(input)))\<close>. The package
  \<^verbatim>\<open>hashcode\<close> is not part of the source: its function is the parameter
  \<open>hashCode_value\<close>, an integer for each input. The result is a \<^verbatim>\<open>bigint\<close>; the return
  type \<^verbatim>\<open>nat64\<close> that the source writes is not checked when the code runs.
\<close>

datatype hash_input = HUndefined | HText string | HBytes bytes

definition hash :: "(hash_input \<Rightarrow> int) \<Rightarrow> hash_input \<Rightarrow> nat" where
  "hash hashCode_value input = nat \<bar>hashCode_value input\<bar>"

text \<open>The decimal digits of a number, as a template literal prints it.\<close>

fun decimal :: "nat \<Rightarrow> string" where
  "decimal n =
     (if n < 10 then [char_of (48 + n)]
      else decimal (n div 10) @ [char_of (48 + n mod 10)])"

declare decimal.simps [simp del]

definition generateCorrelationId ::
  "(hash_input \<Rightarrow> int) \<Rightarrow> 'a ic_scheme \<Rightarrow> string \<Rightarrow> nat" where
  "generateCorrelationId hashCode_value ic productId =
     (let correlationId =
            productId @ ''_'' @ toText (ic_caller ic) @ ''_'' @ decimal (unat (ic_time ic))
      in hash hashCode_value (HText correlationId))"

text \<open>
  \<^verbatim>\<open>discardByTimeout\<close> sets a timer whose callback removes the order from
  \<^verbatim>\<open>pendingOrders\<close>, which the source declares nowhere. The timers set are a list of
  delays with the memo of their callback; \<open>timer_callback\<close> is the callback.
\<close>

definition pendingOrders_ref :: "js_error + (nat64, 'order) stableBTreeMap" where
  "pendingOrders_ref = Inl (ReferenceError ''pendingOrders is not defined'')"

definition timer_callback :: "nat64 \<Rightarrow> js_error + (nat64, 'order) stableBTreeMap" where
  "timer_callback memo =
     (case pendingOrders_ref of
        Inl e \<Rightarrow> Inl e
      | Inr pendingOrders \<Rightarrow> Inr (remove_key pendingOrders memo))"

definition discardByTimeout :: "(nat64 \<times> nat64) list \<Rightarrow> nat64 \<Rightarrow> nat64 \<Rightarrow> (nat64 \<times> nat64) list" where
  "discardByTimeout timers memo delay = timers @ [(delay, memo)]"

text \<open>
  A block of the ledger, as \<^verbatim>\<open>verifyPaymentInternal\<close> reads it: the memo of its
  transaction and the operation, if any. An operation that is not a transfer has no
  \<^verbatim>\<open>Transfer\<close> field, so \<^verbatim>\<open>operation.Transfer?.from\<close> is \<^verbatim>\<open>undefined\<close> there.
\<close>

datatype operation = Transfer bytes bytes nat64 | OtherOperation

record block =
  block_memo :: nat64
  block_operation :: "operation option"

fun transfer_from :: "operation \<Rightarrow> hash_input" where
  "transfer_from (Transfer src dst e8s) = HBytes src"
| "transfer_from OtherOperation = HUndefined"

fun transfer_to :: "operation \<Rightarrow> hash_input" where
  "transfer_to (Transfer src dst e8s) = HBytes dst"
| "transfer_to OtherOperation = HUndefined"

fun transfer_amount :: "operation \<Rightarrow> jsval" where
  "transfer_amount (Transfer src dst e8s) = JBigInt e8s"
| "transfer_amount OtherOperation = JUndefined"

text \<open>
  \<^verbatim>\<open>verifyPaymentInternal\<close>. Its first statement calls \<^verbatim>\<open>icpCanister.query_blocks\<close>, and
  the callback of \<^verbatim>\<open>find\<close> calls \<^verbatim>\<open>binaryAddressFromPrincipal\<close>: the source declares and
  imports neither. \<open>query_blocks start length\<close> stands for the answer of the ledger, the
  blocks or a rejection, which the \<^verbatim>\<open>await\<close> throws.
\<close>

definition icpCanister_ref :: "js_error + (nat64 \<Rightarrow> nat64 \<Rightarrow> js_error + block list)" where
  "icpCanister_ref = Inl (ReferenceError ''icpCanister is not defined'')"

definition binaryAddressFromPrincipal_ref :: "js_error + (principal \<Rightarrow> nat \<Rightarrow> bytes)" where
  "binaryAddressFromPrincipal_ref =
     Inl (ReferenceError ''binaryAddressFromPrincipal is not defined'')"

text \<open>The callback of \<^verbatim>\<open>find\<close>, and \<^verbatim>\<open>find\<close> with a callback that may throw.\<close>

definition block_found ::
  "(hash_input \<Rightarrow> int) \<Rightarrow> ic \<Rightarrow> principal \<Rightarrow> nat64 \<Rightarrow> nat64 \<Rightarrow> block \<Rightarrow> js_error + bool" where
  "block_found hashCode_value ic receiver amount memo block =
     (case block_operation block of
        None \<Rightarrow> Inr False
      | Some operation \<Rightarrow>
          (case binaryAddressFromPrincipal_ref of
             Inl e \<Rightarrow> Inl e
           | Inr binaryAddressFromPrincipal \<Rightarrow>
               (let senderAddress = binaryAddressFromPrincipal (ic_caller ic) 0;
                    receiverAddress = binaryAddressFromPrincipal receiver 0
                in Inr (block_memo block = memo
                        \<and> hash hashCode_value (HBytes senderAddress)
                            = hash hashCode_value (transfer_from operation)
                        \<and> hash hashCode_value (HBytes receiverAddress)
                            = hash hashCode_value (transfer_to operation)
                        \<and> strict_eq (JBigInt amount) (transfer_amount operation)))))"

fun find_block :: "(block \<Rightarrow> js_error + bool) \<Rightarrow> block list \<Rightarrow> js_error + block option" where
  "find_block callback [] = Inr None"
| "find_block callback (b # bs) =
     (case callback b of
        Inl e \<Rightarrow> Inl e
      | Inr found \<Rightarrow> if found then Inr (Some b) else find_block callback bs)"

definition verifyPaymentInternal ::
  "(hash_input \<Rightarrow> int) \<Rightarrow> ic \<Rightarrow> principal \<Rightarrow> nat64 \<Rightarrow> nat64 \<Rightarrow> nat64 \<Rightarrow> js_error + bool" where
  "verifyPaymentInternal hashCode_value ic receiver amount block memo =
     (case icpCanister_ref of
        Inl e \<Rightarrow> Inl e
      | Inr query_blocks \<Rightarrow>
          (case query_blocks block 1 of
             Inl e \<Rightarrow> Inl e
           | Inr blocks \<Rightarrow>
               (case find_block (block_found hashCode_value ic receiver amount memo) blocks of
                  Inl e \<Rightarrow> Inl e
                | Inr None \<Rightarrow> Inr False
                | Inr (Some tx) \<Rightarrow> Inr True)))"

section \<open>Runs of the canister\<close>

text \<open>
  The update calls, with the values each draws from \<^verbatim>\<open>uuidv4()\<close>, and the stores after
  a sequence of them from deployment. Queries leave the stores as they are.
\<close>

datatype call =
    InitOwner
  | CreateUser string
  | CreateWaste wastePayload
  | UpdateWaste wastePayload
  | CreateCategory string categoryPayload
  | ProcessPayment string string string nat64 string

fun step :: "(nat64 \<Rightarrow> js_error + nat64) \<Rightarrow> state \<Rightarrow> ic \<times> call \<Rightarrow> state" where
  "step fees_of st (ic, InitOwner) = snd (initOwner ic st)"
| "step fees_of st (ic, CreateUser name) = snd (createUser ic st name)"
| "step fees_of st (ic, CreateWaste wastepayload) = snd (createWaste ic st wastepayload)"
| "step fees_of st (ic, UpdateWaste wastepayload) = snd (updateWaste ic st wastepayload)"
| "step fees_of st (ic, CreateCategory uuid name) = snd (createCategory uuid ic st name)"
| "step fees_of st (ic, ProcessPayment uuid1 uuid2 wasteId amount paymentMethod) =
     snd (processPayment fees_of uuid1 uuid2 ic st wasteId amount paymentMethod)"

definition run :: "(nat64 \<Rightarrow> js_error + nat64) \<Rightarrow> (ic \<times> call) list \<Rightarrow> state" where
  "run fees_of calls = foldl (step fees_of) init_state calls"

section \<open>Example values\<close>

text \<open>
  alice and carol are senders, bob is a receiver, dave has no account. \<open>registered\<close> is
  the user \<^verbatim>\<open>createUser\<close> returns, \<open>stored\<close> the user it stores. \<open>example_state\<close> holds
  the three users as stored, and two listings of alice as \<^verbatim>\<open>createWaste\<close> builds them:
  \<open>w1\<close> (unverified) and \<open>w2\<close> (verified). No handler can store such a listing; the two
  are there for what the handlers do with a stored listing.
\<close>

definition alice :: principal where "alice = Principal ''alice''"
definition bob :: principal where "bob = Principal ''bob''"
definition carol :: principal where "carol = Principal ''carol''"
definition dave :: principal where "dave = Principal ''dave''"

definition at_time :: "principal \<Rightarrow> nat64 \<Rightarrow> ic" where
  "at_time caller t = \<lparr>ic_caller = caller, ic_time = t\<rparr>"

definition payload_w1 :: wastePayload where
  "payload_w1 =
     \<lparr>payload_id = Some ''w1'', payload_categoryId = Some ''paper'',
      payload_description = ''newspapers'', payload_weight = 10, payload_status = False\<rparr>"

definition payload_w2 :: wastePayload where
  "payload_w2 =
     \<lparr>payload_id = Some ''w2'', payload_categoryId = Some ''glass'',
      payload_description = ''bottles'', payload_weight = 25, payload_status = True\<rparr>"

text \<open>A payload as \<^verbatim>\<open>WastePayload\<close> declares it, without id and category.\<close>

definition payload_declared :: wastePayload where
  "payload_declared =
     \<lparr>payload_id = None, payload_categoryId = None,
      payload_description = ''newspapers'', payload_weight = 10, payload_status = False\<rparr>"

definition registered :: "principal \<Rightarrow> string \<Rightarrow> nat64 \<Rightarrow> user" where
  "registered p role t =
     \<lparr>user_id = p, user_name = role, user_role = role, user_status = Some True,
      user_createdAt = t, user_updatedAt = t\<rparr>"

definition stored :: "principal \<Rightarrow> string \<Rightarrow> nat64 \<Rightarrow> user" where
  "stored p role t = (registered p role t)\<lparr>user_status := None\<rparr>"

definition waste_w1 :: waste where
  "waste_w1 =
     \<lparr>waste_id = Some ''w1'', waste_categoryId = Some ''paper'',
      waste_description = ''newspapers'', waste_weight = 10, waste_status = False,
      waste_authorId = ''alice'', waste_senderId = None, waste_createdAt = 4,
      waste_updatedAt = 4\<rparr>"

definition waste_w2 :: waste where
  "waste_w2 =
     \<lparr>waste_id = Some ''w2'', waste_categoryId = Some ''glass'',
      waste_description = ''bottles'', waste_weight = 25, waste_status = True,
      waste_authorId = ''alice'', waste_senderId = None, waste_createdAt = 5,
      waste_updatedAt = 5\<rparr>"

definition example_state :: state where
  "example_state =
     \<lparr>ownerStorage = [],
      userStorage =
        [(alice, stored alice ''sender'' 1), (bob, stored bob ''receiver'' 2),
         (carol, stored carol ''sender'' 3)],
      categoryStorage = [],
      wasteStorage = [(Some ''w1'', waste_w1), (Some ''w2'', waste_w2)],
      paymentStorage = []\<rparr>"

text \<open>The calls that register the three users, and the state they reach from deployment.\<close>

definition example_calls :: "(ic \<times> call) list" where
  "example_calls =
     [(at_time alice 1, CreateUser ''sender''),
      (at_time bob 2, CreateUser ''receiver''),
      (at_time carol 3, CreateUser ''sender'')]"

definition users_state :: state where
  "users_state = example_state\<lparr>wasteStorage := []\<rparr>"

text \<open>
  An instance of the parameter \<open>hashCode_value\<close>, after the package: the 32-bit hash of
  the characters of a text, to which the hash of the name of the input's type is added.
\<close>

definition string_hash :: "string \<Rightarrow> int" where
  "string_hash s = sint (foldl (\<lambda>h c. 31 * h + of_char c) (0 :: 32 word) s)"

definition example_hashCode :: "hash_input \<Rightarrow> int" where
  "example_hashCode input =
     (case input of
        HUndefined \<Rightarrow> 0
      | HText s \<Rightarrow> string_hash s + string_hash ''string''
      | HBytes bs \<Rightarrow> string_hash (map (\<lambda>b. char_of (unat b)) bs) + string_hash ''object'')"

text \<open>
  Every stored payment names a stored listing: the part of the payment invariant that
  the stores can express.
\<close>

definition payments_reference_listings :: "state \<Rightarrow> bool" where
  "payments_reference_listings st =
     list_all (\<lambda>payment. containsKey (wasteStorage st) (Some (payment_waste_id payment)))
       (values_of (paymentStorage st))"

section \<open>Properties\<close>

lemmas example_defs =
  alice_def bob_def carol_def dave_def at_time_def payload_w1_def payload_w2_def
  payload_declared_def example_calls_def registered_def stored_def waste_w1_def waste_w2_def
  example_state_def users_state_def

lemmas handler_defs =
  try_catch_def catch_result_def containsKey_def get_def truthy_def strict_eq_def Let_def

lemmas store_defs =
  insert_record_def encode_Owner_def encode_User_def encode_Category_def encode_Waste_def
  encode_Payment_def

lemma users_state_reached: "run fees_of example_calls = users_state"
  by (simp add: run_def example_defs init_state_def createUser_def handler_defs store_defs
      USER_ROLES_def)

subsection \<open>processPayment\<close>

lemma processPayment_rejects:
  "processPayment fees_of uuid1 uuid2 ic st wasteId amount paymentMethod
     = (Reply (Err (BadRequest ''Invalid waste item'')), st)"
  by (simp add: processPayment_def handler_defs split: option.split)

text \<open>
  C10. For every caller and every input, \<^verbatim>\<open>processPayment\<close> replies with an error and
  leaves the payments as they were. The status of a listing is a boolean, which is
  never strictly equal to the text \<^verbatim>\<open>"active"\<close>; and a user that \<^verbatim>\<open>createUser\<close> returns
  has one of the roles of \<open>USER_ROLES\<close>, never the role \<^verbatim>\<open>"buyer"\<close> that the role check
  asks for.
\<close>

theorem processPayment_always_rejected:
  "(\<exists>e. fst (processPayment fees_of uuid1 uuid2 ic st wasteId amount paymentMethod)
          = Reply (Err e))
   \<and> paymentStorage (snd (processPayment fees_of uuid1 uuid2 ic st wasteId amount paymentMethod))
       = paymentStorage st
   \<and> \<not> strict_eq (JBool status) (JText ''active'')
   \<and> (fst (createUser ic' st' name) = Reply (Ok u)
        \<longrightarrow> user_role u \<in> set USER_ROLES
            \<and> \<not> strict_eq (JText (user_role u)) (JText ''buyer''))"
proof -
  have role: "user_role u \<in> set USER_ROLES
              \<and> \<not> strict_eq (JText (user_role u)) (JText ''buyer'')"
    if "fst (createUser ic' st' name) = Reply (Ok u)"
    using that
    by (auto simp: createUser_def handler_defs store_defs USER_ROLES_def split: if_splits)
  show ?thesis
    using role by (simp add: processPayment_rejects strict_eq_def)
qed

theorem processPayment_always_rejected_witness:
  "fst (createUser (at_time alice 1) init_state ''sender'')
     = Reply (Ok (registered alice ''sender'' 1))
   \<and> user_role (registered alice ''sender'' 1) \<in> set USER_ROLES
   \<and> \<not> strict_eq (JText (user_role (registered alice ''sender'' 1))) (JText ''buyer'')
   \<and> fst (processPayment (\<lambda>amount. Inr 50) ''u1'' ''u2'' (at_time bob 6) example_state ''w2''
            1000 ''card'')
       = Reply (Err (BadRequest ''Invalid waste item''))"
proof -
  have created: "fst (createUser (at_time alice 1) init_state ''sender'')
                   = Reply (Ok (registered alice ''sender'' 1))"
    by (simp add: createUser_def handler_defs store_defs USER_ROLES_def example_defs
        init_state_def)
  have rejected: "fst (processPayment (\<lambda>amount. Inr 50) ''u1'' ''u2'' (at_time bob 6)
                        example_state ''w2'' 1000 ''card'')
                    = Reply (Err (BadRequest ''Invalid waste item''))"
    by (simp add: processPayment_def handler_defs example_defs)
  from processPayment_always_rejected
         [of "\<lambda>amount. Inr 50" "''u1''" "''u2''" "at_time bob 6" example_state "''w2''" 1000
             "''card''" True "at_time alice 1" init_state "''sender''"
             "registered alice ''sender'' 1"]
       created rejected
  show ?thesis by simp
qed

text \<open>
  C1. The claim asks for a fee of 50 on an amount of 1000 and of 0 on an amount of 7.
  Whatever the fee computation \<open>fees_of\<close> is, also the exact
  \<open>\<lambda>amount. amount * 5 div 100\<close>, and whatever the caller, the listing and the stores,
  \<^verbatim>\<open>processPayment\<close> replies \<^verbatim>\<open>BadRequest\<close> on both amounts before it computes a fee, and
  the fees of the stored payments are what they were.
\<close>

theorem processPayment_no_fee:
  "fst (processPayment fees_of uuid1 uuid2 ic st wasteId 1000 paymentMethod)
     = Reply (Err (BadRequest ''Invalid waste item''))
   \<and> fst (processPayment fees_of uuid1 uuid2 ic st wasteId 7 paymentMethod)
       = Reply (Err (BadRequest ''Invalid waste item''))
   \<and> map payment_fees
        (values_of (paymentStorage
           (snd (processPayment fees_of uuid1 uuid2 ic st wasteId 1000 paymentMethod))))
       = map payment_fees (values_of (paymentStorage st))"
  by (simp add: processPayment_rejects)

subsection \<open>updateWaste\<close>

lemma updateWaste_writes_nothing: "snd (updateWaste ic st wastepayload) = st"
  by (simp add: updateWaste_def current_ref_def handler_defs split: option.split)

lemma updateWaste_fails:
  "\<exists>m. fst (updateWaste ic st wastepayload) = Reply (Err (NotFound m))
     \<or> fst (updateWaste ic st wastepayload) = Reply (Err (Forbidden m))
     \<or> fst (updateWaste ic st wastepayload) = Reply (Err (InternalError m))"
  by (simp add: updateWaste_def current_ref_def handler_defs split: option.split)

text \<open>
  No run stores a listing, so after any run \<^verbatim>\<open>updateWaste\<close> finds none.
\<close>

lemma createWaste_keeps_state: "snd (createWaste ic st wastepayload) = st"
  by (simp add: createWaste_def handler_defs store_defs split: option.split)

lemma step_wasteStorage: "wasteStorage (step fees_of st c) = wasteStorage st"
proof (cases c)
  case (Pair ic call)
  show ?thesis
  proof (cases call)
    case InitOwner
    with Pair show ?thesis by (simp add: initOwner_def handler_defs store_defs)
  next
    case (CreateUser name)
    with Pair show ?thesis by (simp add: createUser_def handler_defs store_defs)
  next
    case (CreateWaste p)
    with Pair show ?thesis by (simp add: createWaste_keeps_state)
  next
    case (UpdateWaste p)
    with Pair show ?thesis by (simp add: updateWaste_writes_nothing)
  next
    case (CreateCategory uuid name)
    with Pair show ?thesis by (simp add: createCategory_def handler_defs store_defs)
  next
    case (ProcessPayment uuid1 uuid2 wasteId amount paymentMethod)
    with Pair show ?thesis by (simp add: processPayment_def handler_defs split: option.split)
  qed
qed

lemma run_wasteStorage: "wasteStorage (run fees_of calls) = []"
proof -
  have "wasteStorage (foldl (step fees_of) st calls) = wasteStorage st" for st
    by (induction calls arbitrary: st) (simp_all add: step_wasteStorage)
  then show ?thesis
    by (simp add: run_def init_state_def)
qed

lemma updateWaste_on_runs:
  "updateWaste ic (run fees_of calls) wastepayload
     = (Reply (Err (NotFound ''Waste not found'')), run fees_of calls)"
  by (simp add: updateWaste_def handler_defs run_wasteStorage)

text \<open>
  C4. A caller whose role is sender and who is not the author of the listing the payload
  names gets \<^verbatim>\<open>Forbidden\<close> from \<^verbatim>\<open>updateWaste\<close>, and the stores are unchanged.
\<close>

theorem updateWaste_sender_not_author:
  assumes "get (wasteStorage st) (payload_id wastepayload) = Some waste"
    and "get (userStorage st) (ic_caller ic) = Some userInfo"
    and "user_role userInfo = ''sender''"
    and "toText (ic_caller ic) \<noteq> waste_authorId waste"
  shows "updateWaste ic st wastepayload
           = (Reply (Err (Forbidden ''You can only edit your own selling item.'')), st)"
  using assms by (simp add: updateWaste_def handler_defs)

theorem updateWaste_sender_not_author_witness:
  "get (wasteStorage example_state) (payload_id payload_w1) = Some waste_w1
   \<and> get (userStorage example_state) (ic_caller (at_time carol 6))
       = Some (stored carol ''sender'' 3)
   \<and> user_role (stored carol ''sender'' 3) = ''sender''
   \<and> toText (ic_caller (at_time carol 6)) \<noteq> waste_authorId waste_w1
   \<and> updateWaste (at_time carol 6) example_state payload_w1
       = (Reply (Err (Forbidden ''You can only edit your own selling item.'')), example_state)"
proof -
  have a: "get (wasteStorage example_state) (payload_id payload_w1) = Some waste_w1"
    by (simp add: example_defs get_def)
  have b: "get (userStorage example_state) (ic_caller (at_time carol 6))
             = Some (stored carol ''sender'' 3)"
    by (simp add: example_defs get_def)
  have c: "user_role (stored carol ''sender'' 3) = ''sender''"
    by (simp add: stored_def registered_def)
  have d: "toText (ic_caller (at_time carol 6)) \<noteq> waste_authorId waste_w1"
    by (simp add: example_defs)
  from updateWaste_sender_not_author [OF a b c d] a b c d show ?thesis by simp
qed

text \<open>
  C5. The claim asks that a receiver who is not the author can set an unverified listing
  to verified, and that setting a verified listing back to unverified fails with
  \<^verbatim>\<open>InvalidWasteStatusUpdate\<close>. Here bob, a receiver, verifies alice's unverified \<open>w1\<close>,
  and alice sets her verified \<open>w2\<close> back to unverified: both calls reply
  \<^verbatim>\<open>InternalError\<close>, from the read of \<^verbatim>\<open>current\<close>, and the listings keep their status.
\<close>

theorem updateWaste_status_bug:
  "updateWaste (at_time bob 6) example_state (payload_w1\<lparr>payload_status := True\<rparr>)
     = (Reply (Err (InternalError ''ReferenceError: current is not defined'')), example_state)
   \<and> updateWaste (at_time alice 6) example_state (payload_w2\<lparr>payload_status := False\<rparr>)
     = (Reply (Err (InternalError ''ReferenceError: current is not defined'')), example_state)
   \<and> map waste_status (values_of (wasteStorage example_state)) = [False, True]"
  by (simp add: updateWaste_def current_ref_def handler_defs example_defs values_of_def)

subsection \<open>Uncaught exceptions\<close>

lemma catch_result_replies: "\<exists>r. catch_result x = Reply r"
  by (cases x) (simp_all add: catch_result_def)

lemma try_catch_replies: "\<exists>r. fst (try_catch x) = Reply r"
  by (simp add: try_catch_def catch_result_replies)

text \<open>The handlers whose body is one \<^verbatim>\<open>try\<close> block reply on every call.\<close>

lemma other_handlers_reply:
  "(\<exists>r. fst (createWaste ic st wastepayload) = Reply r)
   \<and> (\<exists>r. fst (updateWaste ic st wastepayload) = Reply r)
   \<and> (\<exists>r. fst (processPayment fees_of uuid1 uuid2 ic st wasteId amount paymentMethod)
             = Reply r)
   \<and> (\<exists>r. getActiveWasteById st wasteId = Reply r)
   \<and> (\<exists>r. getActiveWastes st = Reply r)
   \<and> (\<exists>r. getActiveWasteByCategory st categoryId = Reply r)"
  unfolding createWaste_def updateWaste_def processPayment_def getActiveWasteById_def
    getActiveWastes_def getActiveWasteByCategory_def Let_def
  by (intro conjI try_catch_replies catch_result_replies)

lemma getInactiveWastes_unregistered:
  "get (userStorage st) (ic_caller ic) = None \<Longrightarrow>
     getInactiveWastes ic st = Trap (undefined_property ''role'')"
  by (simp add: getInactiveWastes_def)

text \<open>
  C9. The claim asks that no call ends in an uncaught exception. A call of
  \<^verbatim>\<open>getInactiveWastes\<close> by dave, who has no account, traps: the role is read from
  \<^verbatim>\<open>undefined\<close> before the \<^verbatim>\<open>try\<close> block.
\<close>

theorem getInactiveWastes_traps:
  "getInactiveWastes (at_time dave 6) example_state
     = Trap (TypeError ''cannot read property role of undefined'')"
  by (simp add: getInactiveWastes_def handler_defs example_defs undefined_property_def)

subsection \<open>createWaste\<close>

lemma createWaste_unregistered:
  "\<not> containsKey (userStorage st) (ic_caller ic) \<Longrightarrow>
     createWaste ic st wastepayload
       = (Reply (Err (Unauthorized ''Create an account first'')), st)"
  by (simp add: createWaste_def try_catch_def catch_result_def Let_def)

lemma createWaste_inactive:
  "get (userStorage st) (ic_caller ic) = Some user \<Longrightarrow> \<not> truthy (user_status user) \<Longrightarrow>
     createWaste ic st wastepayload
       = (Reply (Err (Forbidden ''Account is currently deactived'')), st)"
  by (simp add: createWaste_def try_catch_def catch_result_def Let_def containsKey_def get_def)

text \<open>In no state does \<^verbatim>\<open>createWaste\<close> store a listing or reply with one.\<close>

lemma createWaste_never_succeeds: "fst (createWaste ic st wastepayload) \<noteq> Reply (Ok waste)"
  by (simp add: createWaste_def handler_defs store_defs split: option.split)

text \<open>Every user that a run stores is without a status.\<close>

lemma put_entry_values:
  "list_all P (values_of m) \<Longrightarrow> P v \<Longrightarrow> list_all P (values_of (put_entry m k v))"
  by (induction m) (auto simp: values_of_def)

lemma step_users_inactive:
  assumes "list_all (\<lambda>u. user_status u = None) (values_of (userStorage st))"
  shows "list_all (\<lambda>u. user_status u = None) (values_of (userStorage (step fees_of st c)))"
proof (cases c)
  case (Pair ic call)
  show ?thesis
  proof (cases call)
    case InitOwner
    with Pair assms show ?thesis by (simp add: initOwner_def handler_defs store_defs)
  next
    case (CreateUser name)
    with Pair assms show ?thesis
      by (simp add: createUser_def handler_defs store_defs put_entry_values)
  next
    case (CreateWaste p)
    with Pair assms show ?thesis by (simp add: createWaste_keeps_state)
  next
    case (UpdateWaste p)
    with Pair assms show ?thesis by (simp add: updateWaste_writes_nothing)
  next
    case (CreateCategory uuid name)
    with Pair assms show ?thesis by (simp add: createCategory_def handler_defs store_defs)
  next
    case (ProcessPayment uuid1 uuid2 wasteId amount paymentMethod)
    with Pair assms show ?thesis by (simp add: processPayment_rejects)
  qed
qed

lemma foldl_step_users_inactive:
  "list_all (\<lambda>u. user_status u = None) (values_of (userStorage st)) \<Longrightarrow>
     list_all (\<lambda>u. user_status u = None)
       (values_of (userStorage (foldl (step fees_of) st calls)))"
  by (induction calls arbitrary: st) (simp_all add: step_users_inactive)

lemma run_users_inactive:
  "list_all (\<lambda>u. user_status u = None) (values_of (userStorage (run fees_of calls)))"
  unfolding run_def
  by (rule foldl_step_users_inactive) (simp add: init_state_def values_of_def)

lemma get_in_values: "get m k = Some v \<Longrightarrow> v \<in> set (values_of m)"
  by (auto simp: get_def values_of_def dest: map_of_SomeD intro: rev_image_eqI)

text \<open>After any run, \<^verbatim>\<open>createWaste\<close> refuses every caller.\<close>

lemma createWaste_on_runs:
  "createWaste ic (run fees_of calls) wastepayload
     = (Reply (Err (Unauthorized ''Create an account first'')), run fees_of calls)
   \<or> createWaste ic (run fees_of calls) wastepayload
       = (Reply (Err (Forbidden ''Account is currently deactived'')), run fees_of calls)"
proof (cases "get (userStorage (run fees_of calls)) (ic_caller ic)")
  case None
  then have "\<not> containsKey (userStorage (run fees_of calls)) (ic_caller ic)"
    by (simp add: containsKey_def get_def)
  then show ?thesis by (simp add: createWaste_unregistered)
next
  case (Some user)
  then have "user \<in> set (values_of (userStorage (run fees_of calls)))"
    by (rule get_in_values)
  with run_users_inactive [of fees_of calls] have "user_status user = None"
    by (simp add: list_all_iff)
  then have "\<not> truthy (user_status user)"
    by (simp add: truthy_def)
  with Some show ?thesis by (simp add: createWaste_inactive)
qed

text \<open>
  C6. The claim asks that \<^verbatim>\<open>createWaste\<close> by a registered, active user succeeds. alice
  registers with \<^verbatim>\<open>createUser\<close> on the canister as deployed, which builds her with
  status true and stores her without the status; her \<^verbatim>\<open>createWaste\<close> then replies
  \<^verbatim>\<open>Forbidden\<close> and stores nothing, with a payload as declared and with one that
  carries an id. dave, who has no account, gets \<^verbatim>\<open>Unauthorized\<close>, as the claim says.
\<close>

theorem createWaste_refuses_registered:
  "snd (createUser (at_time alice 1) init_state ''sender'')
     = init_state\<lparr>userStorage := [(alice, stored alice ''sender'' 1)]\<rparr>
   \<and> user_status (stored alice ''sender'' 1) = None
   \<and> createWaste (at_time alice 4) (init_state\<lparr>userStorage := [(alice, stored alice ''sender'' 1)]\<rparr>)
        payload_declared
       = (Reply (Err (Forbidden ''Account is currently deactived'')),
          init_state\<lparr>userStorage := [(alice, stored alice ''sender'' 1)]\<rparr>)
   \<and> createWaste (at_time alice 4) (init_state\<lparr>userStorage := [(alice, stored alice ''sender'' 1)]\<rparr>)
        payload_w1
       = (Reply (Err (Forbidden ''Account is currently deactived'')),
          init_state\<lparr>userStorage := [(alice, stored alice ''sender'' 1)]\<rparr>)
   \<and> createWaste (at_time dave 4) (init_state\<lparr>userStorage := [(alice, stored alice ''sender'' 1)]\<rparr>)
        payload_w1
       = (Reply (Err (Unauthorized ''Create an account first'')),
          init_state\<lparr>userStorage := [(alice, stored alice ''sender'' 1)]\<rparr>)"
  by (simp add: createUser_def createWaste_def handler_defs store_defs USER_ROLES_def
      example_defs init_state_def)

subsection \<open>Correlation ids\<close>

lemma decimal_5: "decimal 5 = ''5''"
  by code_simp

lemma string_hash_w1: "string_hash ''w1_alice_5'' = 1162509713"
  by (simp add: string_hash_def)

lemma string_hash_string: "string_hash ''string'' = - 891985903"
  by (simp add: string_hash_def)

text \<open>
  C7. Two calls of \<^verbatim>\<open>generateCorrelationId\<close> with the same listing id, the same caller
  and the same time give the same id, whatever else the ambient values of the two calls
  hold.
\<close>

theorem generateCorrelationId_deterministic:
  fixes ic :: "'a ic_scheme" and ic' :: "'b ic_scheme"
  shows "listingId = listingId' \<and> ic_caller ic = ic_caller ic' \<and> ic_time ic = ic_time ic'
           \<longrightarrow> generateCorrelationId hashCode_value ic listingId
                 = generateCorrelationId hashCode_value ic' listingId'"
  by (simp add: generateCorrelationId_def)

theorem generateCorrelationId_deterministic_witness:
  "ic_caller (at_time alice 5)
     = ic_caller \<lparr>ic_caller = Principal ''alice'', ic_time = 2 + 3, random_values = [7, 9]\<rparr>
   \<and> ic_time (at_time alice 5)
       = ic_time \<lparr>ic_caller = Principal ''alice'', ic_time = 2 + 3, random_values = [7, 9]\<rparr>
   \<and> generateCorrelationId example_hashCode (at_time alice 5) ''w1''
        = generateCorrelationId example_hashCode
            \<lparr>ic_caller = Principal ''alice'', ic_time = 2 + 3, random_values = [7, 9]\<rparr> ''w1''
   \<and> generateCorrelationId example_hashCode (at_time alice 5) ''w1'' = 270523810"
proof -
  have same:
    "ic_caller (at_time alice 5)
       = ic_caller \<lparr>ic_caller = Principal ''alice'', ic_time = 2 + 3, random_values = [7, 9]\<rparr>
     \<and> ic_time (at_time alice 5)
         = ic_time \<lparr>ic_caller = Principal ''alice'', ic_time = 2 + 3, random_values = [7, 9]\<rparr>"
    by (simp add: example_defs)
  have val: "generateCorrelationId example_hashCode (at_time alice 5) ''w1'' = 270523810"
    by (simp add: generateCorrelationId_def hash_def example_hashCode_def example_defs
        decimal_5 string_hash_w1 string_hash_string)
  from generateCorrelationId_deterministic
         [where listingId = "''w1''" and listingId' = "''w1''" and ic = "at_time alice 5"
            and ic' = "\<lparr>ic_caller = Principal ''alice'', ic_time = 2 + 3,
                        random_values = [7, 9]\<rparr>"
            and hashCode_value = example_hashCode]
       same val
  show ?thesis by simp
qed

subsection \<open>Timers and the ledger verifier\<close>

text \<open>The callback of the timer throws, whatever the memo: no order is removed.\<close>

lemma timer_callback_throws:
  "timer_callback memo = Inl (ReferenceError ''pendingOrders is not defined'')"
  by (simp add: timer_callback_def pendingOrders_ref_def)

text \<open>
  C8. The claim asks that \<^verbatim>\<open>verifyPaymentInternal\<close> returns true when a block holds the
  matching transfer and false when none does. For every caller, receiver, amount, block
  index and memo, and whatever the ledger holds, the call throws a \<^verbatim>\<open>ReferenceError\<close>
  at its first statement: it returns neither true nor false.
\<close>

theorem verifyPaymentInternal_throws:
  "verifyPaymentInternal hashCode_value ic receiver amount block memo
     = Inl (ReferenceError ''icpCanister is not defined'')
   \<and> verifyPaymentInternal hashCode_value ic receiver amount block memo \<noteq> Inr True
   \<and> verifyPaymentInternal hashCode_value ic receiver amount block memo \<noteq> Inr False"
  by (simp add: verifyPaymentInternal_def icpCanister_ref_def)

subsection \<open>Stored payments\<close>

lemma step_paymentStorage: "paymentStorage (step fees_of st c) = paymentStorage st"
proof (cases c)
  case (Pair ic call)
  show ?thesis
  proof (cases call)
    case InitOwner
    with Pair show ?thesis by (simp add: initOwner_def handler_defs store_defs)
  next
    case (CreateUser name)
    with Pair show ?thesis by (simp add: createUser_def handler_defs store_defs)
  next
    case (CreateWaste p)
    with Pair show ?thesis by (simp add: createWaste_keeps_state)
  next
    case (UpdateWaste p)
    with Pair show ?thesis by (simp add: updateWaste_writes_nothing)
  next
    case (CreateCategory uuid name)
    with Pair show ?thesis by (simp add: createCategory_def handler_defs store_defs)
  next
    case (ProcessPayment uuid1 uuid2 wasteId amount paymentMethod)
    with Pair show ?thesis by (simp add: processPayment_rejects)
  qed
qed

lemma foldl_step_paymentStorage:
  "paymentStorage (foldl (step fees_of) st calls) = paymentStorage st"
  by (induction calls arbitrary: st) (simp_all add: step_paymentStorage)

text \<open>
  C2. After any sequence of update calls from deployment, every stored payment names a
  stored listing, and no payment is stored that the ledger verifier has not confirmed:
  no handler calls the verifier, and no run stores a payment at all.
\<close>

theorem no_payment_stored:
  "payments_reference_listings (run fees_of calls) \<and> paymentStorage (run fees_of calls) = []"
  by (simp add: payments_reference_listings_def values_of_def run_def
      foldl_step_paymentStorage init_state_def)

end
